theory Spec2Isabelle
  imports Main "HOL-Library.Code_Target_Nat"
begin

section \<open>Python strings\<close>

text \<open>
  A Python \<open>str\<close> is a sequence of Unicode code points: \<open>len\<close>, slicing and
  \<open>strip\<close> count code points, not bytes.  A code point is a natural number and a
  \<open>str\<close> is a list of them.  ASCII literals of the source are written with
  \<open>ascii\<close>; the two Chinese literals the claims speak of are spelled out by their
  code points.
\<close>

type_synonym ustr = "nat list"

definition ascii :: "string \<Rightarrow> ustr" where
  "ascii s = map of_char s"

text \<open>
  \<open>str.isspace\<close> for one code point, as CPython's \<open>Py_UNICODE_ISSPACE\<close> has it: the
  ASCII table entries 0x09-0x0D, 0x1C-0x1F and 0x20, and beyond ASCII the code points
  of bidirectional type WS, B or S and of category Zs.
\<close>

definition isspace :: "nat \<Rightarrow> bool" where
  "isspace c \<longleftrightarrow>
     (9 \<le> c \<and> c \<le> 13) \<or> (28 \<le> c \<and> c \<le> 32) \<or> c = 133 \<or> c = 160 \<or> c = 5760 \<or>
     (8192 \<le> c \<and> c \<le> 8202) \<or> c = 8232 \<or> c = 8233 \<or> c = 8239 \<or> c = 8287 \<or>
     c = 12288"

definition lstrip :: "ustr \<Rightarrow> ustr" where
  "lstrip s = dropWhile isspace s"

definition rstrip :: "ustr \<Rightarrow> ustr" where
  "rstrip s = rev (dropWhile isspace (rev s))"

text \<open>\<open>s.strip()\<close> with no argument.\<close>

definition strip :: "ustr \<Rightarrow> ustr" where
  "strip s = rstrip (lstrip s)"

definition startswith :: "ustr \<Rightarrow> ustr \<Rightarrow> bool" where
  "startswith s p \<longleftrightarrow> take (length p) s = p"

definition endswith :: "ustr \<Rightarrow> ustr \<Rightarrow> bool" where
  "endswith s p \<longleftrightarrow> length p \<le> length s \<and> drop (length s - length p) s = p"

text \<open>
  \<open>s[i:j]\<close> for integers \<open>i\<close> and \<open>j\<close>.  Python never raises here: a negative
  index counts from the end, and after that both indices are cut to \<open>0 .. len(s)\<close>;
  a start at or beyond the stop gives the empty string.
\<close>

definition slice_index :: "nat \<Rightarrow> int \<Rightarrow> nat" where
  "slice_index n i =
     (if i < 0 then (if i + int n < 0 then 0 else nat (i + int n))
      else (if int n < i then n else nat i))"

definition py_slice :: "'a list \<Rightarrow> int \<Rightarrow> int \<Rightarrow> 'a list" where
  "py_slice s i j =
     (let a = slice_index (length s) i; b = slice_index (length s) j
      in take (b - a) (drop a s))"

text \<open>\<open>s[i:]\<close> and \<open>s[:-k]\<close> for the literal, non-negative \<open>i\<close> and \<open>k > 0\<close> of the source.\<close>

definition slice_from :: "'a list \<Rightarrow> nat \<Rightarrow> 'a list" where
  "slice_from s i = drop i s"

definition slice_drop_last :: "'a list \<Rightarrow> nat \<Rightarrow> 'a list" where
  "slice_drop_last s k = take (length s - k) s"

text \<open>\<open>s.split()\<close> with no argument: the maximal runs of non-whitespace.\<close>

fun split_acc :: "ustr \<Rightarrow> ustr \<Rightarrow> ustr list" where
  "split_acc w [] = (if w = [] then [] else [rev w])"
| "split_acc w (c # cs) =
     (if isspace c then (if w = [] then split_acc [] cs else rev w # split_acc [] cs)
      else split_acc (c # w) cs)"

definition split :: "ustr \<Rightarrow> ustr list" where
  "split s = split_acc [] s"

section \<open>The page estimate\<close>

text \<open>
  \<open>PDFProcessor._estimate_page_number\<close> of \<open>para.py\<close>.  Python's \<open>//\<close> on integers
  is floor division, as \<open>div\<close> on \<open>int\<close> is.  The text argument is not used.
\<close>

definition chars_per_page :: int where
  "chars_per_page = 2000"

definition estimate_page_number :: "int \<Rightarrow> ustr \<Rightarrow> int" where
  "estimate_page_number start_position full_text =
     max 1 (start_position div chars_per_page + 1)"

text \<open>The same method of \<open>para-kimi.py\<close>, with the constant written in place.\<close>

definition kimi_estimate_page_number :: "int \<Rightarrow> ustr \<Rightarrow> int" where
  "kimi_estimate_page_number position full_text = max 1 (position div 2000 + 1)"

section \<open>The paragraph materializer\<close>

text \<open>
  A section descriptor as the prompt of \<open>analyze_document\<close> fixes it and as
  \<open>extract_text\<close> reads it: four fields, the two offsets and the level integers.
  \<open>chapter_path\<close> is \<open>None\<close> where the decoded value is Python's \<open>None\<close>.
\<close>

record section_descriptor =
  heading_level :: int
  chapter_path :: "ustr option"
  start_position :: int
  end_position :: int

text \<open>The dictionary \<open>_create_paragraph_dict\<close> returns, with its nested \<open>position\<close>.\<close>

record position =
  page :: int
  sequence :: "int option"

record 'id paragraph_record =
  paragraph_id :: 'id
  para_heading_level :: int
  para_chapter :: ustr
  content :: ustr
  word_count :: nat
  translation_status :: ustr
  position :: position

text \<open>\<open>'#' * n\<close>: a count of zero or less gives the empty string.\<close>

definition hashes :: "int \<Rightarrow> ustr" where
  "hashes n = replicate (nat n) 35"

text \<open>The truth value of an optional string: \<open>None\<close> and \<open>''\<close> are false.\<close>

definition truthy_str :: "ustr option \<Rightarrow> bool" where
  "truthy_str v = (case v of None \<Rightarrow> False | Some s \<Rightarrow> s \<noteq> [])"

text \<open>The fallback literal of \<open>para.py\<close>, line 253: the two code points U+672A U+7C7B.\<close>

definition fallback_chapter :: ustr where
  "fallback_chapter = [26410, 31867]"

text \<open>
  \<open>PDFProcessor._create_paragraph_dict\<close> of \<open>para.py\<close>.  The identifier is the
  result of \<open>str(uuid.uuid4())\<close>, drawn by the caller here.
\<close>

definition create_paragraph_dict ::
    "'id \<Rightarrow> ustr \<Rightarrow> int \<Rightarrow> ustr option \<Rightarrow> int \<Rightarrow> 'id paragraph_record" where
  "create_paragraph_dict uid cont level path page_num =
     (let formatted_chapter =
        (if level > 0 then hashes level @ [32] @ cont
         else (if truthy_str path then the path else fallback_chapter))
      in \<lparr> paragraph_id = uid,
           para_heading_level = level,
           para_chapter = formatted_chapter,
           content = strip cont,
           word_count = length (split cont),
           translation_status = ascii ''pending'',
           position = \<lparr> page = page_num, sequence = None \<rparr> \<rparr>)"

text \<open>
  The loop of \<open>PDFProcessor.extract_text\<close> of \<open>para.py\<close> (lines 225 to 238) over
  the sections of the decoded result: the text of the PDF and the call of the model come
  before it.  \<open>ids\<close> is the supply of fresh identifiers, the \<open>n\<close>-th call of
  \<open>uuid.uuid4\<close> giving \<open>ids n\<close>.
\<close>

fun extract_text ::
    "(nat \<Rightarrow> 'id) \<Rightarrow> nat \<Rightarrow> ustr \<Rightarrow> section_descriptor list \<Rightarrow> 'id paragraph_record list" where
  "extract_text ids n full_text [] = []"
| "extract_text ids n full_text (sec # secs) =
     (let cont = strip (py_slice full_text (start_position sec) (end_position sec));
          para_dict = create_paragraph_dict (ids n) cont (heading_level sec) (chapter_path sec)
                        (estimate_page_number (start_position sec) full_text)
      in para_dict # extract_text ids (Suc n) full_text secs)"

subsection \<open>The variant of para-kimi.py\<close>

text \<open>\<open>sep.join(xs)\<close>.\<close>

fun join :: "ustr \<Rightarrow> ustr list \<Rightarrow> ustr" where
  "join sep [] = []"
| "join sep [x] = x"
| "join sep (x # y # ys) = x @ sep @ join sep (y # ys)"

text \<open>The fallback literal of \<open>para-kimi.py\<close>, line 187: U+672A U+5206 U+7C7B.\<close>

definition kimi_fallback_chapter :: ustr where
  "kimi_fallback_chapter = [26410, 20998, 31867]"

text \<open>
  \<open>PDFProcessor._create_paragraph_dict\<close> of \<open>para-kimi.py\<close>: the body branch renders
  a stack of (level, title) pairs.
\<close>

definition kimi_create_paragraph_dict ::
    "'id \<Rightarrow> ustr \<Rightarrow> int \<Rightarrow> (int \<times> ustr) list \<Rightarrow> int \<Rightarrow> 'id paragraph_record" where
  "kimi_create_paragraph_dict uid cont level chapter_stack page_num =
     (let chapter_path =
        (if level > 0 then hashes level @ [32] @ cont
         else (if chapter_stack \<noteq> []
               then join (ascii '' > '') (map (\<lambda>(lv, title). hashes lv @ [32] @ title) chapter_stack)
               else kimi_fallback_chapter))
      in \<lparr> paragraph_id = uid,
           para_heading_level = level,
           para_chapter = chapter_path,
           content = strip cont,
           word_count = length (split cont),
           translation_status = ascii ''pending'',
           position = \<lparr> page = page_num, sequence = None \<rparr> \<rparr>)"

subsection \<open>The words of the specification\<close>

text \<open>
  The specification's reading of an offset "clamped to the valid range", and the span it
  selects; they are compared with \<open>py_slice\<close> below.
\<close>

definition spec_clamp_offset :: "nat \<Rightarrow> int \<Rightarrow> nat" where
  "spec_clamp_offset n i = nat (max 0 (min (int n) i))"

definition spec_clamped_span :: "'a list \<Rightarrow> int \<Rightarrow> int \<Rightarrow> 'a list" where
  "spec_clamped_span s i j =
     (let a = spec_clamp_offset (length s) i; b = spec_clamp_offset (length s) j
      in take (b - a) (drop a s))"

text \<open>The specification's fallback literal for "unclassified": U+672A U+5206 U+7C7B.\<close>

definition spec_unclassified :: ustr where
  "spec_unclassified = [26410, 20998, 31867]"

text \<open>Python's reading of a negative index, before any cut: it counts from the end.\<close>

definition from_end :: "nat \<Rightarrow> int \<Rightarrow> int" where
  "from_end n i = (if i < 0 then i + int n else i)"

section \<open>Exceptions and decoded JSON values\<close>

text \<open>
  The values \<open>json.loads\<close> returns.  A float is kept as the decimal number of its
  literal, mantissa and power of ten; the three constants \<open>NaN\<close>, \<open>Infinity\<close> and
  \<open>-Infinity\<close> that Python's decoder accepts are floats too.  A \<open>dict\<close> is the list
  of its items in insertion order, each key once.
\<close>

datatype pyfloat = Decimal int int | NaN | Infinity | NegInfinity

datatype json =
    JNull
  | JBool bool
  | JInt int
  | JFloat pyfloat
  | JStr ustr
  | JList "json list"
  | JDict "(ustr \<times> json) list"

text \<open>The messages of \<open>json.JSONDecodeError\<close>, one constructor for each.\<close>

datatype json_msg =
    ExpectingValue
  | ExpectingPropertyName
  | ExpectingColon
  | ExpectingComma
  | UnterminatedString
  | InvalidControlCharacter
  | InvalidEscape
  | InvalidUnicodeEscape
  | ExtraData
  | UnexpectedBOM

text \<open>
  The exceptions the modelled code can meet.  \<open>JSONDecodeError msg doc pos\<close> carries the
  three arguments of its constructor; \<open>KeyError\<close> carries the key and \<open>AttributeError\<close>
  the name of the attribute; \<open>ValueError\<close> carries its message.
\<close>

datatype exn =
    JSONDecodeError json_msg ustr nat
  | UnicodeDecodeError
  | KeyError json
  | IndexError
  | TypeError
  | AttributeError ustr
  | ValueError ustr
  | RecursionError

text \<open>\<open>d[k] = v\<close> on the item list: a key that is present keeps its place.\<close>

fun dict_set :: "ustr \<Rightarrow> json \<Rightarrow> (ustr \<times> json) list \<Rightarrow> (ustr \<times> json) list" where
  "dict_set k v [] = [(k, v)]"
| "dict_set k v ((k', v') # kvs) =
     (if k = k' then (k, v) # kvs else (k', v') # dict_set k v kvs)"

section \<open>Decoding UTF-8\<close>

text \<open>
  \<open>bytes.decode('utf-8')\<close> in strict mode: the well-formed byte sequences of the Unicode
  standard, anything else raising \<open>UnicodeDecodeError\<close>.  A byte is a \<open>char\<close>, so a
  line of the response is a \<open>string\<close>.
\<close>

definition continuation :: "nat \<Rightarrow> bool" where
  "continuation b \<longleftrightarrow> 128 \<le> b \<and> b \<le> 191"

definition cons_ok :: "'a \<Rightarrow> exn + 'a list \<Rightarrow> exn + 'a list" where
  "cons_ok c r = (case r of Inl e \<Rightarrow> Inl e | Inr s \<Rightarrow> Inr (c # s))"

fun utf8_points :: "nat list \<Rightarrow> exn + ustr" where
  "utf8_points [] = Inr []"
| "utf8_points (b # bs) =
     (if b < 128 then cons_ok b (utf8_points bs)
      else if 194 \<le> b \<and> b \<le> 223 then
        (case bs of
           c1 # r \<Rightarrow>
             if continuation c1 then cons_ok ((b - 192) * 64 + (c1 - 128)) (utf8_points r)
             else Inl UnicodeDecodeError
         | _ \<Rightarrow> Inl UnicodeDecodeError)
      else if 224 \<le> b \<and> b \<le> 239 then
        (case bs of
           c1 # c2 # r \<Rightarrow>
             if (if b = 224 then 160 \<le> c1 \<and> c1 \<le> 191
                 else if b = 237 then 128 \<le> c1 \<and> c1 \<le> 159
                 else continuation c1) \<and> continuation c2
             then cons_ok ((b - 224) * 4096 + (c1 - 128) * 64 + (c2 - 128)) (utf8_points r)
             else Inl UnicodeDecodeError
         | _ \<Rightarrow> Inl UnicodeDecodeError)
      else if 240 \<le> b \<and> b \<le> 244 then
        (case bs of
           c1 # c2 # c3 # r \<Rightarrow>
             if (if b = 240 then 144 \<le> c1 \<and> c1 \<le> 191
                 else if b = 244 then 128 \<le> c1 \<and> c1 \<le> 143
                 else continuation c1) \<and> continuation c2 \<and> continuation c3
             then cons_ok ((b - 240) * 262144 + (c1 - 128) * 4096 + (c2 - 128) * 64 + (c3 - 128))
                    (utf8_points r)
             else Inl UnicodeDecodeError
         | _ \<Rightarrow> Inl UnicodeDecodeError)
      else Inl UnicodeDecodeError)"

definition utf8_decode :: "string \<Rightarrow> exn + ustr" where
  "utf8_decode line = utf8_points (map of_char line)"

section \<open>The JSON decoder of the standard library\<close>

text \<open>
  \<open>json.loads\<close> on a \<open>str\<close>, as CPython 3.11 with its C scanner decodes: the
  grammar, the messages and the positions of the errors.  It is not code of the
  repository; the functions of the repository below take the decoder as a parameter, and
  this one stands for it where a concrete run is evaluated.  The recursion is bounded by
  a counter that every call lowers by one; \<open>json_loads\<close> starts it at twice the length
  of the document plus two, which no run uses up, so the interpreter's own limit on the
  depth of nesting is not part of the model.
\<close>

definition pos_of :: "ustr \<Rightarrow> ustr \<Rightarrow> nat" where
  "pos_of doc rest = length doc - length rest"

definition json_ws :: "nat \<Rightarrow> bool" where
  "json_ws c \<longleftrightarrow> c = 32 \<or> c = 9 \<or> c = 10 \<or> c = 13"

definition skip_ws :: "ustr \<Rightarrow> ustr" where
  "skip_ws s = dropWhile json_ws s"

definition is_digit :: "nat \<Rightarrow> bool" where
  "is_digit c \<longleftrightarrow> 48 \<le> c \<and> c \<le> 57"

definition hex_digit :: "nat \<Rightarrow> nat option" where
  "hex_digit c =
     (if 48 \<le> c \<and> c \<le> 57 then Some (c - 48)
      else if 97 \<le> c \<and> c \<le> 102 then Some (c - 87)
      else if 65 \<le> c \<and> c \<le> 70 then Some (c - 55)
      else None)"

fun hex_value :: "nat \<Rightarrow> ustr \<Rightarrow> nat option" where
  "hex_value acc [] = Some acc"
| "hex_value acc (c # cs) =
     (case hex_digit c of None \<Rightarrow> None | Some d \<Rightarrow> hex_value (acc * 16 + d) cs)"

text \<open>The escapes of one character after a backslash, other than \<open>u\<close>.\<close>

definition backslash :: "nat \<Rightarrow> nat option" where
  "backslash c =
     (if c = 34 then Some 34 else if c = 92 then Some 92 else if c = 47 then Some 47
      else if c = 98 then Some 8 else if c = 102 then Some 12 else if c = 110 then Some 10
      else if c = 114 then Some 13 else if c = 116 then Some 9 else None)"

text \<open>
  \<open>scanstring\<close>: the characters after an opening quote, up to the closing one.
  \<open>begin\<close> is the position of the opening quote.
\<close>

fun scanstring :: "ustr \<Rightarrow> nat \<Rightarrow> ustr \<Rightarrow> ustr \<Rightarrow> exn + (ustr \<times> ustr)" where
  "scanstring doc begin acc [] = Inl (JSONDecodeError UnterminatedString doc begin)"
| "scanstring doc begin acc (c # cs) =
     (if c = 34 then Inr (rev acc, cs)
      else if c = 92 then
        (case cs of
           [] \<Rightarrow> Inl (JSONDecodeError UnterminatedString doc begin)
         | e # es \<Rightarrow>
             if e \<noteq> 117 then
               (case backslash e of
                  None \<Rightarrow> Inl (JSONDecodeError InvalidEscape doc (pos_of doc (c # cs)))
                | Some ch \<Rightarrow> scanstring doc begin (ch # acc) es)
             else if length es \<le> 4 then
               Inl (JSONDecodeError InvalidUnicodeEscape doc (pos_of doc cs))
             else
               (case hex_value 0 (take 4 es) of
                  None \<Rightarrow> Inl (JSONDecodeError InvalidUnicodeEscape doc (pos_of doc cs))
                | Some u \<Rightarrow>
                    if 55296 \<le> u \<and> u \<le> 56319 \<and> 6 < length (drop 4 es)
                       \<and> take 2 (drop 4 es) = [92, 117]
                    then
                      (case hex_value 0 (take 4 (drop 6 es)) of
                         None \<Rightarrow>
                           Inl (JSONDecodeError InvalidUnicodeEscape doc (pos_of doc (drop 5 es)))
                       | Some u2 \<Rightarrow>
                           if 56320 \<le> u2 \<and> u2 \<le> 57343
                           then scanstring doc begin
                                  ((65536 + ((u - 55296) * 1024 + (u2 - 56320))) # acc)
                                  (drop 10 es)
                           else scanstring doc begin (u # acc) (drop 4 es))
                    else scanstring doc begin (u # acc) (drop 4 es)))
      else if c \<le> 31 then
        Inl (JSONDecodeError InvalidControlCharacter doc (pos_of doc (c # cs)))
      else scanstring doc begin (c # acc) cs)"

text \<open>The value of a row of decimal digits.\<close>

definition digits_value :: "ustr \<Rightarrow> int" where
  "digits_value ds = foldl (\<lambda>a d. 10 * a + int (d - 48)) 0 ds"

text \<open>
  A number: \<open>-?(0|[1-9][0-9]*)(\.[0-9]+)?([eE][-+]?[0-9]+)?\<close>.  Without a fraction and
  an exponent it is an \<open>int\<close>, whose conversion raises \<open>ValueError\<close> beyond the
  interpreter's default of 4300 digits; otherwise it is a float.  No number at the start
  is "Expecting value" there.
\<close>

definition match_number :: "ustr \<Rightarrow> ustr \<Rightarrow> exn + (json \<times> ustr)" where
  "match_number doc s =
     (let neg = (s \<noteq> [] \<and> hd s = 45);
          s1 = (if neg then tl s else s);
          stop = Inl (JSONDecodeError ExpectingValue doc (pos_of doc s))
      in case s1 of
           [] \<Rightarrow> stop
         | d # r1 \<Rightarrow>
             if \<not> is_digit d then stop
             else
               (let ipart = (if d = 48 then [d] else d # takeWhile is_digit r1);
                    r2 = (if d = 48 then r1 else dropWhile is_digit r1);
                    has_frac = (case r2 of p # f # _ \<Rightarrow> p = 46 \<and> is_digit f | _ \<Rightarrow> False);
                    fpart = (if has_frac then takeWhile is_digit (tl r2) else []);
                    r3 = (if has_frac then dropWhile is_digit (tl r2) else r2);
                    is_e = (r3 \<noteq> [] \<and> (hd r3 = 101 \<or> hd r3 = 69));
                    r4 = (if is_e then tl r3 else r3);
                    has_sign = (is_e \<and> r4 \<noteq> [] \<and> (hd r4 = 43 \<or> hd r4 = 45));
                    eneg = (has_sign \<and> hd r4 = 45);
                    r5 = (if has_sign then tl r4 else r4);
                    epart = (if is_e then takeWhile is_digit r5 else []);
                    has_exp = (epart \<noteq> []);
                    r6 = (if has_exp then dropWhile is_digit r5 else r3);
                    sgn = (if neg then - 1 else 1)
                in if has_frac \<or> has_exp then
                     Inr (JFloat (Decimal (sgn * digits_value (ipart @ fpart))
                            ((if eneg then - digits_value epart else digits_value epart)
                               - int (length fpart))), r6)
                   else if 4300 < length ipart then
                     Inl (ValueError (ascii ''Exceeds the limit (4300 digits) for integer string conversion''))
                   else Inr (JInt (sgn * digits_value ipart), r6)))"

text \<open>
  \<open>scan_once\<close> with the loops of the object and the array; the loops are entered
  after the whitespace that follows the opening bracket, at a first item.
\<close>

fun scan_once :: "nat \<Rightarrow> ustr \<Rightarrow> ustr \<Rightarrow> exn + (json \<times> ustr)"
and parse_object :: "nat \<Rightarrow> ustr \<Rightarrow> (ustr \<times> json) list \<Rightarrow> ustr \<Rightarrow> exn + (json \<times> ustr)"
and parse_array :: "nat \<Rightarrow> ustr \<Rightarrow> json list \<Rightarrow> ustr \<Rightarrow> exn + (json \<times> ustr)" where
  "scan_once 0 doc s = Inl RecursionError"
| "scan_once (Suc fuel) doc s =
     (case s of
        [] \<Rightarrow> Inl (JSONDecodeError ExpectingValue doc (pos_of doc s))
      | c # cs \<Rightarrow>
          if c = 34 then
            (case scanstring doc (pos_of doc s) [] cs of
               Inl e \<Rightarrow> Inl e
             | Inr (str, r) \<Rightarrow> Inr (JStr str, r))
          else if c = 123 then
            (case skip_ws cs of
               [] \<Rightarrow> parse_object fuel doc [] []
             | b # r \<Rightarrow> if b = 125 then Inr (JDict [], r) else parse_object fuel doc [] (b # r))
          else if c = 91 then
            (case skip_ws cs of
               [] \<Rightarrow> parse_array fuel doc [] []
             | b # r \<Rightarrow> if b = 93 then Inr (JList [], r) else parse_array fuel doc [] (b # r))
          else if take 4 s = ascii ''null'' then Inr (JNull, drop 4 s)
          else if take 4 s = ascii ''true'' then Inr (JBool True, drop 4 s)
          else if take 5 s = ascii ''false'' then Inr (JBool False, drop 5 s)
          else if take 3 s = ascii ''NaN'' then Inr (JFloat NaN, drop 3 s)
          else if take 8 s = ascii ''Infinity'' then Inr (JFloat Infinity, drop 8 s)
          else if take 9 s = ascii ''-Infinity'' then Inr (JFloat NegInfinity, drop 9 s)
          else match_number doc s)"
| "parse_object 0 doc pairs s = Inl RecursionError"
| "parse_object (Suc fuel) doc pairs s =
     (case s of
        [] \<Rightarrow> Inl (JSONDecodeError ExpectingPropertyName doc (pos_of doc s))
      | q # cs \<Rightarrow>
          if q \<noteq> 34 then Inl (JSONDecodeError ExpectingPropertyName doc (pos_of doc s))
          else
            (case scanstring doc (pos_of doc s) [] cs of
               Inl e \<Rightarrow> Inl e
             | Inr (key, r) \<Rightarrow>
                 (case skip_ws r of
                    [] \<Rightarrow> Inl (JSONDecodeError ExpectingColon doc (pos_of doc []))
                  | d # r1 \<Rightarrow>
                      if d \<noteq> 58 then Inl (JSONDecodeError ExpectingColon doc (pos_of doc (d # r1)))
                      else
                        (case scan_once fuel doc (skip_ws r1) of
                           Inl e \<Rightarrow> Inl e
                         | Inr (val, r2) \<Rightarrow>
                             (case skip_ws r2 of
                                [] \<Rightarrow> Inl (JSONDecodeError ExpectingComma doc (pos_of doc []))
                              | t # r3 \<Rightarrow>
                                  if t = 125 then Inr (JDict (dict_set key val pairs), r3)
                                  else if t = 44 then
                                    parse_object fuel doc (dict_set key val pairs) (skip_ws r3)
                                  else Inl (JSONDecodeError ExpectingComma doc
                                              (pos_of doc (t # r3))))))))"
| "parse_array 0 doc vals s = Inl RecursionError"
| "parse_array (Suc fuel) doc vals s =
     (case scan_once fuel doc s of
        Inl e \<Rightarrow> Inl e
      | Inr (val, r) \<Rightarrow>
          (case skip_ws r of
             [] \<Rightarrow> Inl (JSONDecodeError ExpectingComma doc (pos_of doc []))
           | t # r1 \<Rightarrow>
               if t = 93 then Inr (JList (vals @ [val]), r1)
               else if t = 44 then parse_array fuel doc (vals @ [val]) (skip_ws r1)
               else Inl (JSONDecodeError ExpectingComma doc (pos_of doc (t # r1)))))"

text \<open>\<open>json.loads(s)\<close>: the byte order mark, one value between whitespace, nothing after.\<close>

definition json_loads :: "ustr \<Rightarrow> exn + json" where
  "json_loads s =
     (if s \<noteq> [] \<and> hd s = 65279 then Inl (JSONDecodeError UnexpectedBOM s 0)
      else
        (case scan_once (2 * length s + 2) s (skip_ws s) of
           Inl e \<Rightarrow> Inl e
         | Inr (obj, r) \<Rightarrow>
             if skip_ws r = [] then Inr obj
             else Inl (JSONDecodeError ExtraData s (pos_of s (skip_ws r)))))"

section \<open>The streaming response assembler\<close>

text \<open>
  The operations of Python on decoded values that the loop of \<open>analyze_document\<close>
  uses, each with the exception it raises on a value of another type.
\<close>

text \<open>\<open>v[key]\<close> for a string key.\<close>

definition subscript_key :: "json \<Rightarrow> ustr \<Rightarrow> exn + json" where
  "subscript_key v k =
     (case v of
        JDict kvs \<Rightarrow> (case map_of kvs k of None \<Rightarrow> Inl (KeyError (JStr k)) | Some x \<Rightarrow> Inr x)
      | _ \<Rightarrow> Inl TypeError)"

text \<open>\<open>v[0]\<close>.\<close>

definition subscript_0 :: "json \<Rightarrow> exn + json" where
  "subscript_0 v =
     (case v of
        JList xs \<Rightarrow> (case xs of [] \<Rightarrow> Inl IndexError | x # _ \<Rightarrow> Inr x)
      | JStr s \<Rightarrow> (case s of [] \<Rightarrow> Inl IndexError | c # _ \<Rightarrow> Inr (JStr [c]))
      | JDict kvs \<Rightarrow> Inl (KeyError (JInt 0))
      | _ \<Rightarrow> Inl TypeError)"

text \<open>\<open>v.get(key, default)\<close>: only a \<open>dict\<close> has the method.\<close>

definition dict_get :: "json \<Rightarrow> ustr \<Rightarrow> json \<Rightarrow> exn + json" where
  "dict_get v k dflt =
     (case v of
        JDict kvs \<Rightarrow> Inr (case map_of kvs k of None \<Rightarrow> dflt | Some x \<Rightarrow> x)
      | _ \<Rightarrow> Inl (AttributeError (ascii ''get'')))"

text \<open>
  The truth value of a decoded value.  A float literal is zero when its double is, that
  is when its magnitude does not exceed \<open>2 ^ -1075\<close>.
\<close>

definition float_nonzero :: "pyfloat \<Rightarrow> bool" where
  "float_nonzero f =
     (case f of
        Decimal m e \<Rightarrow> m \<noteq> 0 \<and> (0 \<le> e \<or> 10 ^ nat (- e) < \<bar>m\<bar> * 2 ^ 1075)
      | _ \<Rightarrow> True)"

definition truthy :: "json \<Rightarrow> bool" where
  "truthy v =
     (case v of
        JNull \<Rightarrow> False
      | JBool b \<Rightarrow> b
      | JInt i \<Rightarrow> i \<noteq> 0
      | JFloat f \<Rightarrow> float_nonzero f
      | JStr s \<Rightarrow> s \<noteq> []
      | JList xs \<Rightarrow> xs \<noteq> []
      | JDict kvs \<Rightarrow> kvs \<noteq> [])"

text \<open>\<open>acc += v\<close> for a string \<open>acc\<close>.\<close>

definition str_iadd :: "ustr \<Rightarrow> json \<Rightarrow> exn + ustr" where
  "str_iadd acc v = (case v of JStr s \<Rightarrow> Inr (acc @ s) | _ \<Rightarrow> Inl TypeError)"

text \<open>\<open>data['choices'][0]['finish_reason']\<close>.\<close>

definition finish_reason_of :: "json \<Rightarrow> exn + json" where
  "finish_reason_of data =
     (case subscript_key data (ascii ''choices'') of
        Inl e \<Rightarrow> Inl e
      | Inr cs \<Rightarrow>
          (case subscript_0 cs of
             Inl e \<Rightarrow> Inl e
           | Inr c \<Rightarrow> subscript_key c (ascii ''finish_reason'')))"

text \<open>\<open>data['choices'][0]['delta'].get('content', '')\<close>.\<close>

definition delta_content :: "json \<Rightarrow> exn + json" where
  "delta_content data =
     (case subscript_key data (ascii ''choices'') of
        Inl e \<Rightarrow> Inl e
      | Inr cs \<Rightarrow>
          (case subscript_0 cs of
             Inl e \<Rightarrow> Inl e
           | Inr c \<Rightarrow>
               (case subscript_key c (ascii ''delta'') of
                  Inl e \<Rightarrow> Inl e
                | Inr d \<Rightarrow> dict_get d (ascii ''content'') (JStr []))))"

text \<open>
  The state of the loop of \<open>analyze_document\<close> over \<open>response.iter_lines()\<close>
  (\<open>para.py\<close>, lines 114 to 132): the text accumulated so far, and the exceptions the
  handler of line 130 has caught and printed, in order.
\<close>

record stream_state =
  full_content :: ustr
  logged :: "exn list"

text \<open>
  The body of the \<open>try\<close> for one non-empty line, on the text accumulated so far:
  the new text, or the exception raised.  \<open>loads\<close> is \<open>json.loads\<close>.
\<close>

definition try_line :: "(ustr \<Rightarrow> exn + json) \<Rightarrow> ustr \<Rightarrow> string \<Rightarrow> exn + ustr" where
  "try_line loads acc line =
     (case utf8_decode line of
        Inl e \<Rightarrow> Inl e
      | Inr text \<Rightarrow>
          if startswith text (ascii ''data: '') then
            (case loads (slice_from text 6) of
               Inl e \<Rightarrow> Inl e
             | Inr data \<Rightarrow>
                 (case finish_reason_of data of
                    Inl e \<Rightarrow> Inl e
                  | Inr reason \<Rightarrow>
                      if reason \<noteq> JNull then Inr acc
                      else
                        (case delta_content data of
                           Inl e \<Rightarrow> Inl e
                         | Inr cont \<Rightarrow> if truthy cont then str_iadd acc cont else Inr acc)))
          else Inr acc)"

definition process_line :: "(ustr \<Rightarrow> exn + json) \<Rightarrow> stream_state \<Rightarrow> string \<Rightarrow> stream_state" where
  "process_line loads st line =
     (if line = [] then st
      else
        (case try_line loads (full_content st) line of
           Inl e \<Rightarrow> st \<lparr> logged := logged st @ [e] \<rparr>
         | Inr acc \<Rightarrow> st \<lparr> full_content := acc \<rparr>))"

definition assemble :: "(ustr \<Rightarrow> exn + json) \<Rightarrow> string list \<Rightarrow> stream_state" where
  "assemble loads lines = foldl (process_line loads) \<lparr> full_content = [], logged = [] \<rparr> lines"

section \<open>The structured result parser\<close>

text \<open>
  What lines 138 to 174 and the handler of line 189 of \<open>analyze_document\<close> print, one
  constructor for each \<open>print\<close>, in the order of the source.
\<close>

datatype printed =
    PrintCleaning
  | PrintFenceDetected
  | PrintFinalContent ustr
  | PrintTrying
  | PrintParsed
  | PrintSectionsLength nat
  | PrintValidated
  | PrintJsonError json_msg nat nat nat
  | PrintErrorPosition nat nat
  | PrintErrorChar
  | PrintProblemHeader
  | PrintProblemLine ustr
  | PrintCaret ustr
  | PrintLLMError exn

text \<open>The two markers of lines 141 and 144: three backticks, with and without \<open>json\<close>.\<close>

definition fence :: ustr where
  "fence = [96, 96, 96]"

definition fence_json :: ustr where
  "fence_json = [96, 96, 96] @ ascii ''json''"

text \<open>Lines 140 to 146: the text handed to \<open>json.loads\<close>, and whether line 142 printed.\<close>

definition fenced :: "ustr \<Rightarrow> bool" where
  "fenced full = startswith (strip full) fence_json"

definition clean_payload :: "ustr \<Rightarrow> ustr" where
  "clean_payload full =
     (let c0 = strip full;
          c1 = (if startswith c0 fence_json then slice_from c0 7 else c0);
          c2 = (if endswith c1 fence then slice_drop_last c1 3 else c1)
      in strip c2)"

text \<open>
  \<open>JSONDecodeError.__init__\<close>: the line and the column of a position in a document.
\<close>

definition lineno :: "ustr \<Rightarrow> nat \<Rightarrow> nat" where
  "lineno doc pos = length (filter (\<lambda>c. c = 10) (take pos doc)) + 1"

definition colno :: "ustr \<Rightarrow> nat \<Rightarrow> nat" where
  "colno doc pos =
     (if 10 \<in> set (take pos doc)
      then pos - (length (take pos doc) - 1 - length (takeWhile (\<lambda>c. c \<noteq> 10) (rev (take pos doc))))
      else pos + 1)"

text \<open>
  The attributes of a \<open>JSONDecodeError\<close> object: \<open>msg\<close>, \<open>doc\<close>, \<open>pos\<close>,
  \<open>lineno\<close> and \<open>colno\<close>, and no other.  Reading another name raises
  \<open>AttributeError\<close>.
\<close>

datatype attr_value = AMsg json_msg | AStr ustr | ANat nat

definition getattr_decode_error :: "json_msg \<Rightarrow> ustr \<Rightarrow> nat \<Rightarrow> ustr \<Rightarrow> exn + attr_value" where
  "getattr_decode_error msg doc pos name =
     (if name = ascii ''msg'' then Inr (AMsg msg)
      else if name = ascii ''doc'' then Inr (AStr doc)
      else if name = ascii ''pos'' then Inr (ANat pos)
      else if name = ascii ''lineno'' then Inr (ANat (lineno doc pos))
      else if name = ascii ''colno'' then Inr (ANat (colno doc pos))
      else Inl (AttributeError name))"

text \<open>\<open>s.split('\n')\<close>.\<close>

fun split_lines_acc :: "ustr \<Rightarrow> ustr \<Rightarrow> ustr list" where
  "split_lines_acc cur [] = [rev cur]"
| "split_lines_acc cur (c # cs) =
     (if c = 10 then rev cur # split_lines_acc [] cs else split_lines_acc (c # cur) cs)"

definition split_lines :: "ustr \<Rightarrow> ustr list" where
  "split_lines s = split_lines_acc [] s"

text \<open>\<open>sub in s\<close> for two strings.\<close>

fun substring :: "ustr \<Rightarrow> ustr \<Rightarrow> bool" where
  "substring sub [] = (sub = [])"
| "substring sub (c # cs) = (startswith (c # cs) sub \<or> substring sub cs)"

text \<open>\<open>'sections' in v\<close>.\<close>

definition contains_sections :: "json \<Rightarrow> exn + bool" where
  "contains_sections v =
     (case v of
        JDict kvs \<Rightarrow> Inr (map_of kvs (ascii ''sections'') \<noteq> None)
      | JList xs \<Rightarrow> Inr (JStr (ascii ''sections'') \<in> set xs)
      | JStr s \<Rightarrow> Inr (substring (ascii ''sections'') s)
      | _ \<Rightarrow> Inl TypeError)"

text \<open>\<open>len(v)\<close>.\<close>

definition py_len :: "json \<Rightarrow> exn + nat" where
  "py_len v =
     (case v of
        JStr s \<Rightarrow> Inr (length s)
      | JList xs \<Rightarrow> Inr (length xs)
      | JDict kvs \<Rightarrow> Inr (length kvs)
      | _ \<Rightarrow> Inl TypeError)"

text \<open>
  The message of the \<open>ValueError\<close> of line 158: U+8FD4 U+56DE U+7684 \<open>JSON\<close> U+7F3A
  U+5C11 \<open>'sections'\<close> U+5B57 U+6BB5.
\<close>

definition missing_sections_message :: ustr where
  "missing_sections_message =
     [36820, 22238, 30340] @ ascii ''JSON'' @ [32570, 23569, 39] @ ascii ''sections''
       @ [39, 23383, 27573]"

text \<open>
  The handler of line 189: it prints the exception with its traceback and raises it
  again.
\<close>

definition outer_handler :: "printed list \<Rightarrow> exn \<Rightarrow> printed list \<times> (exn + json)" where
  "outer_handler out e = (out @ [PrintLLMError e], Inl e)"

text \<open>
  The handler of line 165 for a \<open>JSONDecodeError\<close> with the given arguments, the
  cleaned text being \<open>cleaned\<close>.  An exception raised inside it reaches the handler of
  line 189, as the re-raised one of line 174 does.
\<close>

definition decode_error_handler ::
    "printed list \<Rightarrow> ustr \<Rightarrow> json_msg \<Rightarrow> ustr \<Rightarrow> nat \<Rightarrow> printed list \<times> (exn + json)" where
  "decode_error_handler out cleaned msg doc pos =
     (let out1 = out @ [PrintJsonError msg (lineno doc pos) (colno doc pos) pos,
                        PrintErrorPosition (lineno doc pos) (colno doc pos)]
      in case getattr_decode_error msg doc pos (ascii ''char'') of
           Inl e \<Rightarrow> outer_handler out1 e
         | Inr ch \<Rightarrow>
             (let out2 = out1 @ [PrintErrorChar, PrintProblemHeader];
                  lines = split_lines cleaned
              in if lineno doc pos \<le> length lines
                 then outer_handler
                        (out2 @ [PrintProblemLine (lines ! (lineno doc pos - 1)),
                                 PrintCaret (replicate (colno doc pos - 1) 32 @ [94])])
                        (JSONDecodeError msg doc pos)
                 else outer_handler out2 (JSONDecodeError msg doc pos)))"

text \<open>Lines 156 to 163, after a successful decoding.\<close>

definition validate_result :: "printed list \<Rightarrow> json \<Rightarrow> printed list \<times> (exn + json)" where
  "validate_result out parsed_result =
     (let out1 = out @ [PrintParsed]
      in case contains_sections parsed_result of
           Inl e \<Rightarrow> outer_handler out1 e
         | Inr present \<Rightarrow>
             if \<not> present then outer_handler out1 (ValueError missing_sections_message)
             else
               (case subscript_key parsed_result (ascii ''sections'') of
                  Inl e \<Rightarrow> outer_handler out1 e
                | Inr secs \<Rightarrow>
                    (case py_len secs of
                       Inl e \<Rightarrow> outer_handler out1 e
                     | Inr n \<Rightarrow> (out1 @ [PrintSectionsLength n, PrintValidated], Inr parsed_result))))"

text \<open>
  Lines 138 to 174 of \<open>analyze_document\<close> on the accumulated text: what is printed, and
  the value returned or the exception that leaves the method.
\<close>

definition parse_result :: "(ustr \<Rightarrow> exn + json) \<Rightarrow> ustr \<Rightarrow> printed list \<times> (exn + json)" where
  "parse_result loads full =
     (let cleaned = clean_payload full;
          out = [PrintCleaning] @ (if fenced full then [PrintFenceDetected] else [])
                  @ [PrintFinalContent cleaned, PrintTrying]
      in case loads cleaned of
           Inl (JSONDecodeError msg doc pos) \<Rightarrow> decode_error_handler out cleaned msg doc pos
         | Inl e \<Rightarrow> outer_handler out e
         | Inr parsed_result \<Rightarrow> validate_result out parsed_result)"

text \<open>
  The method from the first line of the response on: the loop over the lines, then the
  parser on the text the loop has accumulated.
\<close>

definition analyze_document ::
    "(ustr \<Rightarrow> exn + json) \<Rightarrow> string list \<Rightarrow> printed list \<times> (exn + json)" where
  "analyze_document loads lines = parse_result loads (full_content (assemble loads lines))"

subsection \<open>The words of the specification\<close>

text \<open>
  A well-formed chunk and its fragment, as the specification describes the lines of the
  endpoint: the event marker, then a JSON object whose first choice has no finish reason
  and a delta with the text fragment as its content.
\<close>

definition well_formed_chunk :: "(ustr \<Rightarrow> exn + json) \<Rightarrow> string \<Rightarrow> ustr \<Rightarrow> bool" where
  "well_formed_chunk loads line fragment \<longleftrightarrow>
     (\<exists>payload obj choice others delta.
        utf8_decode line = Inr (ascii ''data: '' @ payload)
        \<and> loads payload = Inr (JDict obj)
        \<and> map_of obj (ascii ''choices'') = Some (JList (JDict choice # others))
        \<and> map_of choice (ascii ''finish_reason'') = Some JNull
        \<and> map_of choice (ascii ''delta'') = Some (JDict delta)
        \<and> map_of delta (ascii ''content'') = Some (JStr fragment))"

text \<open>
  A malformed chunk: bytes that are not UTF-8, or a payload after the event marker that
  the decoder rejects with the exception \<open>e\<close>.
\<close>

definition malformed_chunk :: "(ustr \<Rightarrow> exn + json) \<Rightarrow> string \<Rightarrow> exn \<Rightarrow> bool" where
  "malformed_chunk loads line e \<longleftrightarrow>
     line \<noteq> []
     \<and> (utf8_decode line = Inl e
        \<or> (\<exists>payload. utf8_decode line = Inr (ascii ''data: '' @ payload) \<and> loads payload = Inl e))"

section \<open>Properties of the page estimate\<close>

text \<open>
  Claim C8.  For every start position \<open>\<ge> 0\<close> the estimated page is
  \<open>max(1, start_position // 2000 + 1)\<close>; it is at least 1, it does not decrease when the
  start position grows, position 0 is on page 1 and position 4500 on page 3.
\<close>

theorem page_number_formula_and_monotone:
  assumes "0 \<le> s"
  shows "estimate_page_number s txt = max 1 (s div 2000 + 1)
       \<and> estimate_page_number s txt = s div 2000 + 1
       \<and> 1 \<le> estimate_page_number s txt
       \<and> (\<forall>t. s \<le> t \<longrightarrow> estimate_page_number s txt \<le> estimate_page_number t txt)
       \<and> estimate_page_number 0 txt = 1
       \<and> estimate_page_number 4500 txt = 3"
proof -
  have nonneg: "0 \<le> s div 2000"
    using assms by (simp add: pos_imp_zdiv_nonneg_iff)
  have mono: "s div 2000 \<le> t div 2000" if "s \<le> t" for t
    using that by (rule zdiv_mono1) simp
  have "estimate_page_number s txt \<le> estimate_page_number t txt" if "s \<le> t" for t
    using mono [OF that] by (simp add: estimate_page_number_def chars_per_page_def)
  then show ?thesis
    using nonneg by (simp add: estimate_page_number_def chars_per_page_def)
qed

theorem page_number_formula_and_monotone_witness:
  "(0::int) \<le> 1999
   \<and> estimate_page_number 1999 [] = 1
   \<and> estimate_page_number 1999 [] \<le> estimate_page_number 2000 []
   \<and> estimate_page_number 2000 [] = 2"
proof -
  have h: "(0::int) \<le> 1999" by simp
  have le: "(1999::int) \<le> 2000" by simp
  from page_number_formula_and_monotone [OF h, of "[]"] le
  have "estimate_page_number 1999 [] \<le> estimate_page_number 2000 []" by blast
  then show ?thesis
    by (simp add: estimate_page_number_def chars_per_page_def)
qed

text \<open>
  Claim C10.  The page estimate is defined for every integer, in both programs: below
  position 2000, negative positions included, it is exactly page 1, and it is never
  below 1.
\<close>

theorem page_number_total_on_integers:
  "(s < 2000 \<longrightarrow> estimate_page_number s txt = 1 \<and> kimi_estimate_page_number s txt = 1)
   \<and> 1 \<le> estimate_page_number s txt
   \<and> 1 \<le> kimi_estimate_page_number s txt
   \<and> kimi_estimate_page_number s txt = estimate_page_number s txt"
proof -
  have "s div 2000 \<le> 0" if "s < 2000"
    using that by (cases "0 \<le> s") (simp_all add: div_pos_pos_trivial neg_imp_zdiv_neg_iff)
  then show ?thesis
    by (auto simp add: estimate_page_number_def kimi_estimate_page_number_def
          chars_per_page_def max_def)
qed

theorem page_number_total_on_integers_witness:
  "(-4500 :: int) < 2000
   \<and> estimate_page_number (-4500) [] = 1 \<and> kimi_estimate_page_number (-4500) [] = 1
   \<and> estimate_page_number 1999 [] = 1
   \<and> 1 \<le> estimate_page_number (-1) []"
  using page_number_total_on_integers [of "-4500" "[]"]
    page_number_total_on_integers [of "1999" "[]"]
    page_number_total_on_integers [of "-1" "[]"]
  by simp

section \<open>Facts about strings and slices\<close>

lemma rstrip_keeps_head:
  assumes "xs \<noteq> []" "\<not> isspace (hd xs)"
  shows "rstrip xs \<noteq> [] \<and> hd (rstrip xs) = hd xs"
proof -
  obtain x ys where xs: "xs = x # ys" using assms(1) by (cases xs) auto
  with assms(2) have nx: "\<not> isspace x" by simp
  have "\<exists>zs. dropWhile isspace (rev ys @ [x]) = zs @ [x]"
  proof (cases "\<forall>y\<in>set (rev ys). isspace y")
    case True
    then have "dropWhile isspace (rev ys @ [x]) = [] @ [x]"
      using nx by (simp add: dropWhile_append)
    then show ?thesis by blast
  next
    case False
    then have "dropWhile isspace (rev ys @ [x]) = dropWhile isspace (rev ys) @ [x]"
      by (simp add: dropWhile_append)
    then show ?thesis by blast
  qed
  then obtain zs where "dropWhile isspace (rev (x # ys)) = zs @ [x]" by auto
  then have "rstrip xs = x # rev zs"
    by (simp add: rstrip_def xs)
  then show ?thesis by (simp add: xs)
qed

lemma lstrip_head: "lstrip s = [] \<or> \<not> isspace (hd (lstrip s))"
  unfolding lstrip_def using hd_dropWhile [of isspace s] by blast

lemma lstrip_id: "s = [] \<or> \<not> isspace (hd s) \<Longrightarrow> lstrip s = s"
  unfolding lstrip_def by (cases s) auto

lemma rstrip_idem: "rstrip (rstrip s) = rstrip s"
  unfolding rstrip_def by simp

lemma rstrip_Nil: "rstrip [] = []"
  by (simp add: rstrip_def)

lemma strip_head: "strip s = [] \<or> \<not> isspace (hd (strip s))"
proof (cases "lstrip s = []")
  case True
  then show ?thesis by (simp add: strip_def rstrip_Nil)
next
  case False
  with lstrip_head [of s] have "\<not> isspace (hd (lstrip s))" by blast
  from rstrip_keeps_head [OF False this] this show ?thesis
    by (simp add: strip_def)
qed

lemma strip_idem: "strip (strip s) = strip s"
proof -
  have "lstrip (strip s) = strip s"
    using strip_head [of s] by (rule lstrip_id)
  then show ?thesis
    by (simp add: strip_def [of "strip s"]) (simp add: strip_def rstrip_idem)
qed

lemma slice_index_nonneg: "0 \<le> i \<Longrightarrow> i \<le> int n \<Longrightarrow> slice_index n i = nat i"
  by (simp add: slice_index_def)

lemma py_slice_valid:
  "0 \<le> i \<Longrightarrow> i \<le> j \<Longrightarrow> j \<le> int (length s) \<Longrightarrow>
     py_slice s i j = take (nat j - nat i) (drop (nat i) s)"
  by (simp add: py_slice_def slice_index_nonneg Let_def)

lemma slice_index_clamp: "slice_index n i = spec_clamp_offset n (from_end n i)"
  by (auto simp: slice_index_def spec_clamp_offset_def from_end_def)

lemma py_slice_clamp:
  "py_slice s i j = spec_clamped_span s (from_end (length s) i) (from_end (length s) j)"
  by (simp add: py_slice_def spec_clamped_span_def slice_index_clamp)

section \<open>Properties of the paragraph materializer\<close>

lemma content_create: "content (create_paragraph_dict u c l p g) = strip c"
  by (simp add: create_paragraph_dict_def Let_def)

lemma length_extract_text: "length (extract_text ids n t ds) = length ds"
  by (induction ds arbitrary: n) (simp_all add: Let_def)

lemma extract_text_nth:
  "k < length ds \<Longrightarrow>
   extract_text ids n t ds ! k =
     create_paragraph_dict (ids (n + k))
       (strip (py_slice t (start_position (ds ! k)) (end_position (ds ! k))))
       (heading_level (ds ! k)) (chapter_path (ds ! k))
       (estimate_page_number (start_position (ds ! k)) t)"
proof (induction ds arbitrary: n k)
  case Nil
  then show ?case by simp
next
  case (Cons d ds)
  show ?case
  proof (cases k)
    case 0
    then show ?thesis by (simp add: Let_def)
  next
    case (Suc j)
    with Cons.prems have "j < length ds" by simp
    from Cons.IH [OF this, of "Suc n"] Suc show ?thesis by (simp add: Let_def)
  qed
qed


lemma extract_text_fields:
  "map content (extract_text ids n t ds)
     = map (\<lambda>d. strip (py_slice t (start_position d) (end_position d))) ds
   \<and> map para_heading_level (extract_text ids n t ds) = map heading_level ds
   \<and> map paragraph_id (extract_text ids n t ds) = map ids [n ..< n + length ds]"
proof (induction ds arbitrary: n)
  case Nil
  show ?case by simp
next
  case (Cons d ds)
  have "[n ..< n + length (d # ds)] = n # [Suc n ..< Suc n + length ds]"
    by (subst upt_rec) simp
  with Cons [of "Suc n"] show ?case
    by (simp add: Let_def create_paragraph_dict_def strip_idem)
qed

text \<open>
  Claim C1.  When every descriptor has \<open>0 \<le> start_position \<le> end_position \<le> len(full_text)\<close>,
  the materializer gives one record per descriptor, the \<open>k\<close>-th record for the \<open>k\<close>-th
  descriptor whatever the positions are, and the content of each record is the span of
  the text from the start to the end offset, trimmed of whitespace at both ends.
\<close>

theorem materializer_contents_in_order:
  assumes "\<forall>d\<in>set ds. 0 \<le> start_position d \<and> start_position d \<le> end_position d
             \<and> end_position d \<le> int (length full_text)"
  shows "length (extract_text ids n full_text ds) = length ds
       \<and> map content (extract_text ids n full_text ds)
           = map (\<lambda>d. strip (take (nat (end_position d) - nat (start_position d))
                                 (drop (nat (start_position d)) full_text))) ds
       \<and> map para_heading_level (extract_text ids n full_text ds) = map heading_level ds
       \<and> map paragraph_id (extract_text ids n full_text ds) = map ids [n ..< n + length ds]"
proof -
  have "map (\<lambda>d. strip (py_slice full_text (start_position d) (end_position d))) ds
      = map (\<lambda>d. strip (take (nat (end_position d) - nat (start_position d))
                                 (drop (nat (start_position d)) full_text))) ds"
    using assms by (intro map_cong refl) (simp add: py_slice_valid)
  then show ?thesis
    using extract_text_fields [of ids n full_text ds] length_extract_text [of ids n full_text ds]
    by simp
qed

theorem materializer_contents_in_order_witness:
  "(0::int) \<le> 4 \<and> (4::int) \<le> 9 \<and> 9 \<le> int (length (ascii ''Top  body x''))
   \<and> (0::int) \<le> 0 \<and> (0::int) \<le> 3 \<and> 3 \<le> int (length (ascii ''Top  body x''))
   \<and> map content (extract_text (\<lambda>k. k) 0 (ascii ''Top  body x'')
         [\<lparr>heading_level = 0, chapter_path = Some (ascii ''Intro''), start_position = 4, end_position = 9\<rparr>,
          \<lparr>heading_level = 1, chapter_path = None, start_position = 0, end_position = 3\<rparr>])
       = [ascii ''body'', ascii ''Top'']"
proof -
  define t where "t = ascii ''Top  body x''"
  define ds where "ds =
     [\<lparr>heading_level = 0, chapter_path = Some (ascii ''Intro''), start_position = 4, end_position = 9\<rparr>,
      \<lparr>heading_level = 1, chapter_path = None, start_position = 0, end_position = 3\<rparr>]"
  have bounds: "(0::int) \<le> 4 \<and> (4::int) \<le> 9 \<and> 9 \<le> int (length t)
              \<and> (0::int) \<le> 0 \<and> (0::int) \<le> 3 \<and> 3 \<le> int (length t)"
    by (simp add: t_def ascii_def)
  then have h: "\<forall>d\<in>set ds. 0 \<le> start_position d \<and> start_position d \<le> end_position d
             \<and> end_position d \<le> int (length t)"
    by (simp add: ds_def)
  have ev: "map (\<lambda>d. strip (take (nat (end_position d) - nat (start_position d))
                                 (drop (nat (start_position d)) t))) ds
             = [ascii ''body'', ascii ''Top'']"
    unfolding ds_def t_def by code_simp
  from materializer_contents_in_order [OF h, of "\<lambda>k. k" 0]
  have "map content (extract_text (\<lambda>k. k) 0 t ds)
          = map (\<lambda>d. strip (take (nat (end_position d) - nat (start_position d))
                                 (drop (nat (start_position d)) t))) ds"
    by (rule conjunct2 [THEN conjunct1])
  with ev have "map content (extract_text (\<lambda>k. k) 0 t ds) = [ascii ''body'', ascii ''Top'']"
    by (rule trans [rotated])
  with bounds show ?thesis
    unfolding ds_def t_def by blast
qed


text \<open>
  The chapter of a heading is the row of \<open>#\<close>, a space and the content; the chapter
  of a body paragraph with a non-empty path is that path.
\<close>

lemma chapter_of_heading_and_path:
  "(0 < level \<longrightarrow>
      para_chapter (create_paragraph_dict uid cont level path pg)
        = replicate (nat level) 35 @ [32] @ cont)
   \<and> (level \<le> 0 \<and> path = Some p \<and> p \<noteq> [] \<longrightarrow>
      para_chapter (create_paragraph_dict uid cont level path pg) = p)
   \<and> para_chapter (create_paragraph_dict uid (ascii ''Methods'') 2 path pg) = ascii ''## Methods''"
  by (simp add: create_paragraph_dict_def truthy_str_def hashes_def ascii_def Let_def
        numeral_2_eq_2)

text \<open>
  Claim C7.  The claim has the chapter of a body paragraph with an absent or empty path be
  the literal U+672A U+5206 U+7C7B.  In \<open>para.py\<close> that chapter is the two code points
  U+672A U+7C7B: the middle character of the literal is missing.
\<close>

theorem body_chapter_fallback_literal:
  "para_chapter (create_paragraph_dict uid cont 0 (Some []) pg) = [26410, 31867]
   \<and> para_chapter (create_paragraph_dict uid cont 0 None pg) = [26410, 31867]
   \<and> para_chapter (create_paragraph_dict uid cont 0 (Some []) pg) \<noteq> spec_unclassified
   \<and> para_chapter (create_paragraph_dict uid cont 0 None pg) \<noteq> spec_unclassified"
  by (simp add: create_paragraph_dict_def truthy_str_def fallback_chapter_def
        spec_unclassified_def Let_def)

text \<open>
  In \<open>para-kimi.py\<close> the three-character literal stands for an empty stack; for the
  one-pair stack its \<open>extract_text\<close> builds, a body paragraph gets a space and the path.
\<close>

lemma kimi_chapter_of_body:
  "para_chapter (kimi_create_paragraph_dict uid cont 0 [(0, p)] pg) = 32 # p
   \<and> para_chapter (kimi_create_paragraph_dict uid cont 0 [] pg) = spec_unclassified
   \<and> (0 < level \<longrightarrow>
        para_chapter (kimi_create_paragraph_dict uid cont level stack pg)
          = replicate (nat level) 35 @ [32] @ cont)"
  by (simp add: kimi_create_paragraph_dict_def kimi_fallback_chapter_def
        spec_unclassified_def hashes_def Let_def)

text \<open>
  Claim C9, as stated, at one descriptor with a negative start offset: the claim has the
  offsets clamped to \<open>0 .. len(full_text)\<close>, which selects the whole text here; the
  program's slice counts the negative offset from the end and selects the last two
  characters.
\<close>

theorem negative_offset_counts_from_end_counterexample:
  "map content (extract_text (\<lambda>k. k) 0 (ascii ''abcdef'')
       [\<lparr>heading_level = 0, chapter_path = None, start_position = - 2, end_position = 6\<rparr>])
     = [ascii ''ef'']
   \<and> [strip (spec_clamped_span (ascii ''abcdef'') (- 2) 6)] = [ascii ''abcdef'']
   \<and> map content (extract_text (\<lambda>k. k) 0 (ascii ''abcdef'')
       [\<lparr>heading_level = 0, chapter_path = None, start_position = - 2, end_position = 6\<rparr>])
     \<noteq> [strip (spec_clamped_span (ascii ''abcdef'') (- 2) 6)]"
  by code_simp

lemma page_create: "page (position (create_paragraph_dict u c l p g)) = g
    \<and> sequence (position (create_paragraph_dict u c l p g)) = None"
  by (simp add: create_paragraph_dict_def Let_def)

lemma from_end_nonneg: "0 \<le> i \<Longrightarrow> from_end n i = i"
  by (simp add: from_end_def)

lemma estimate_ge_1: "1 \<le> estimate_page_number s t"
  by (simp add: estimate_page_number_def)

text \<open>
  Claim C9, amended.  For any integer offsets the materializer is defined and gives one
  record per descriptor, with a page of at least 1 and no sequence number.  The content
  is the trimmed span between the two offsets, each first counted from the end of the
  text when negative and then clamped to \<open>0 .. len(full_text)\<close>.  So for offsets that are
  not negative the offsets are clamped as the claim says, and a reversed pair of such
  offsets gives the empty content.
\<close>

theorem materializer_total_on_any_offsets:
  "length (extract_text ids n t ds) = length ds
   \<and> (\<forall>k<length ds.
        content (extract_text ids n t ds ! k)
          = strip (spec_clamped_span t (from_end (length t) (start_position (ds ! k)))
                                       (from_end (length t) (end_position (ds ! k))))
        \<and> (0 \<le> start_position (ds ! k) \<and> 0 \<le> end_position (ds ! k) \<longrightarrow>
             content (extract_text ids n t ds ! k)
               = strip (spec_clamped_span t (start_position (ds ! k)) (end_position (ds ! k))))
        \<and> (0 \<le> end_position (ds ! k) \<and> end_position (ds ! k) \<le> start_position (ds ! k) \<longrightarrow>
             content (extract_text ids n t ds ! k) = [])
        \<and> 1 \<le> page (position (extract_text ids n t ds ! k))
        \<and> sequence (position (extract_text ids n t ds ! k)) = None)"
proof -
  have body: "content (extract_text ids n t ds ! k)
          = strip (spec_clamped_span t (from_end (length t) (start_position (ds ! k)))
                                       (from_end (length t) (end_position (ds ! k))))
        \<and> (0 \<le> start_position (ds ! k) \<and> 0 \<le> end_position (ds ! k) \<longrightarrow>
             content (extract_text ids n t ds ! k)
               = strip (spec_clamped_span t (start_position (ds ! k)) (end_position (ds ! k))))
        \<and> (0 \<le> end_position (ds ! k) \<and> end_position (ds ! k) \<le> start_position (ds ! k) \<longrightarrow>
             content (extract_text ids n t ds ! k) = [])
        \<and> 1 \<le> page (position (extract_text ids n t ds ! k))
        \<and> sequence (position (extract_text ids n t ds ! k)) = None" if k: "k < length ds" for k
  proof -
    let ?s = "start_position (ds ! k)" and ?e = "end_position (ds ! k)"
    let ?r = "extract_text ids n t ds ! k"
    have c: "content ?r = strip (py_slice t ?s ?e)"
      by (simp add: extract_text_nth [OF k] content_create strip_idem)
    have c1: "content ?r = strip (spec_clamped_span t (from_end (length t) ?s)
                                     (from_end (length t) ?e))"
      using c by (simp add: py_slice_clamp)
    have c2: "content ?r = strip (spec_clamped_span t ?s ?e)" if "0 \<le> ?s" "0 \<le> ?e"
      using c1 that by (simp add: from_end_nonneg)
    have "py_slice t ?s ?e = []" if "0 \<le> ?e" "?e \<le> ?s"
      using that by (auto simp: py_slice_def slice_index_def Let_def)
    moreover have "strip [] = []" by (simp add: strip_def lstrip_def rstrip_def)
    ultimately have c3: "content ?r = []" if "0 \<le> ?e" "?e \<le> ?s"
      using c that by simp
    have c4: "1 \<le> page (position ?r) \<and> sequence (position ?r) = None"
      by (simp add: extract_text_nth [OF k] page_create estimate_ge_1)
    from c1 c2 c3 c4 show ?thesis by blast
  qed
  with length_extract_text [of ids n t ds] show ?thesis
    by blast
qed

theorem materializer_total_on_any_offsets_witness:
  "map content (extract_text (\<lambda>k. k) 0 (ascii ''Top  body x'')
       [\<lparr>heading_level = 0, chapter_path = None, start_position = 9, end_position = 4\<rparr>,
        \<lparr>heading_level = 0, chapter_path = None, start_position = 5, end_position = 400\<rparr>,
        \<lparr>heading_level = 0, chapter_path = None, start_position = - 6, end_position = - 2\<rparr>])
     = [[], ascii ''body x'', ascii ''body'']
   \<and> map (\<lambda>r. page (position r)) (extract_text (\<lambda>k. k) 0 (ascii ''Top  body x'')
       [\<lparr>heading_level = 0, chapter_path = None, start_position = 9, end_position = 4\<rparr>,
        \<lparr>heading_level = 0, chapter_path = None, start_position = 5, end_position = 400\<rparr>,
        \<lparr>heading_level = 0, chapter_path = None, start_position = - 6, end_position = - 2\<rparr>])
     = [1, 1, 1]"
proof -
  define t where "t = ascii ''Top  body x''"
  define ds where "ds =
       [\<lparr>heading_level = 0, chapter_path = None, start_position = 9, end_position = 4\<rparr>,
        \<lparr>heading_level = 0, chapter_path = None, start_position = 5, end_position = 400\<rparr>,
        \<lparr>heading_level = 0, chapter_path = None, start_position = - 6, end_position = - 2\<rparr>]"
  define rs where "rs = extract_text (\<lambda>k. k) 0 t ds"
  note th = materializer_total_on_any_offsets [of "\<lambda>k. k" 0 t ds, folded rs_def]
  note each = th [THEN conjunct2, rule_format]
  have len: "length rs = 3" using th by (simp add: ds_def)
  have k0: "content (rs ! 0) = []"
    using each [of 0, THEN conjunct2, THEN conjunct2, THEN conjunct1] by (simp add: ds_def)
  have k1: "content (rs ! 1) = strip (spec_clamped_span t 5 400)"
    using each [of 1, THEN conjunct2, THEN conjunct1] by (simp add: ds_def)
  have k2: "content (rs ! 2)
      = strip (spec_clamped_span t (from_end (length t) (- 6)) (from_end (length t) (- 2)))"
    using each [of 2, THEN conjunct1] by (simp add: ds_def)
  have e1: "strip (spec_clamped_span t 5 400) = ascii ''body x''"
    unfolding t_def by code_simp
  have e2: "strip (spec_clamped_span t (from_end (length t) (- 6)) (from_end (length t) (- 2)))
      = ascii ''body''"
    unfolding t_def by code_simp
  have pg: "map (\<lambda>r. page (position r)) rs = [1, 1, 1]"
    unfolding rs_def t_def ds_def by code_simp
  obtain a b c where "rs = [a, b, c]"
    using len by (auto simp: length_Suc_conv numeral_3_eq_3)
  then have "map content rs = [content (rs ! 0), content (rs ! 1), content (rs ! 2)]"
    by simp
  with k0 k1 k2 e1 e2 pg show ?thesis
    unfolding rs_def t_def ds_def by simp
qed

section \<open>Properties of the streaming response assembler\<close>

lemma utf8_decode_nonempty: "utf8_decode line = Inr (c # cs) \<Longrightarrow> line \<noteq> []"
  by (auto simp: utf8_decode_def)

lemma startswith_append: "startswith (p @ s) p"
  by (simp add: startswith_def)

lemma finish_reason_of_chunk:
  assumes "map_of obj (ascii ''choices'') = Some (JList (JDict choice # others))"
    and "map_of choice (ascii ''finish_reason'') = Some r"
  shows "finish_reason_of (JDict obj) = Inr r"
  using assms by (simp add: finish_reason_of_def subscript_key_def subscript_0_def)

lemma delta_content_chunk:
  assumes "map_of obj (ascii ''choices'') = Some (JList (JDict choice # others))"
    and "map_of choice (ascii ''delta'') = Some (JDict delta)"
    and "map_of delta (ascii ''content'') = Some v"
  shows "delta_content (JDict obj) = Inr v"
  using assms by (simp add: delta_content_def subscript_key_def subscript_0_def dict_get_def)

lemma try_line_well_formed:
  assumes "well_formed_chunk loads line fragment"
  shows "try_line loads acc line = Inr (acc @ fragment)"
proof -
  from assms obtain payload obj choice others delta where
    dec: "utf8_decode line = Inr (ascii ''data: '' @ payload)"
    and pl: "loads payload = Inr (JDict obj)"
    and ch: "map_of obj (ascii ''choices'') = Some (JList (JDict choice # others))"
    and fr: "map_of choice (ascii ''finish_reason'') = Some JNull"
    and de: "map_of choice (ascii ''delta'') = Some (JDict delta)"
    and co: "map_of delta (ascii ''content'') = Some (JStr fragment)"
    unfolding well_formed_chunk_def by blast
  have len: "length (ascii ''data: '') = 6" by (simp add: ascii_def)
  have sl: "slice_from (ascii ''data: '' @ payload) 6 = payload"
    using len by (simp add: slice_from_def)
  show ?thesis
    unfolding try_line_def
    by (simp add: dec startswith_append sl pl finish_reason_of_chunk [OF ch fr]
          delta_content_chunk [OF ch de co] truthy_def str_iadd_def)
qed

lemma well_formed_nonempty: "well_formed_chunk loads line fragment \<Longrightarrow> line \<noteq> []"
  unfolding well_formed_chunk_def
  by (auto simp: ascii_def dest!: utf8_decode_nonempty)

lemma process_line_well_formed:
  assumes "well_formed_chunk loads line fragment"
  shows "process_line loads st line = st \<lparr> full_content := full_content st @ fragment \<rparr>"
  using well_formed_nonempty [OF assms] try_line_well_formed [OF assms]
  by (simp add: process_line_def)

lemma try_line_malformed:
  assumes "malformed_chunk loads line e"
  shows "try_line loads acc line = Inl e"
proof -
  have len: "length (ascii ''data: '') = 6" by (simp add: ascii_def)
  have sl: "slice_from (ascii ''data: '' @ payload) 6 = payload" for payload
    using len by (simp add: slice_from_def)
  from assms show ?thesis
    unfolding malformed_chunk_def try_line_def
    by (auto simp: startswith_append sl)
qed

lemma process_line_malformed:
  assumes "malformed_chunk loads line e"
  shows "process_line loads st line = st \<lparr> logged := logged st @ [e] \<rparr>"
  using assms try_line_malformed [OF assms]
  by (simp add: process_line_def malformed_chunk_def)

lemma foldl_well_formed:
  assumes "list_all2 (well_formed_chunk loads) lines fragments"
  shows "foldl (process_line loads) st lines
           = st \<lparr> full_content := full_content st @ concat fragments \<rparr>"
  using assms
proof (induction lines fragments arbitrary: st rule: list_all2_induct)
  case Nil
  show ?case by simp
next
  case (Cons l ls f fs)
  show ?case
    by (simp add: process_line_well_formed [OF Cons.hyps(1)] Cons.IH)
qed

lemma assemble_well_formed:
  assumes "list_all2 (well_formed_chunk loads) lines fragments"
  shows "assemble loads lines = \<lparr> full_content = concat fragments, logged = [] \<rparr>"
  unfolding assemble_def by (simp add: foldl_well_formed [OF assms])

text \<open>
  Claim C2.  One malformed chunk in the middle of the stream, bytes that are not UTF-8 or
  a payload after the event marker that the decoder rejects, does not end the assembly:
  its exception is caught and logged, and the accumulated text is the fragments of the
  well-formed chunks before it followed by those of the well-formed chunks after it, in
  the order of arrival.
\<close>

theorem bad_chunk_is_logged_and_skipped:
  assumes "list_all2 (well_formed_chunk loads) before fragments1"
    and "malformed_chunk loads bad e"
    and "list_all2 (well_formed_chunk loads) after fragments2"
  shows "full_content (assemble loads (before @ [bad] @ after))
           = concat fragments1 @ concat fragments2
       \<and> logged (assemble loads (before @ [bad] @ after)) = [e]"
  unfolding assemble_def
  by (simp add: foldl_well_formed [OF assms(1)] process_line_malformed [OF assms(2)]
        foldl_well_formed [OF assms(3)])

text \<open>
  Claim C3.  The accumulated text of a stream of well-formed chunks is the concatenation
  of their fragments in the order of arrival, so two streams whose fragments concatenate
  to the same text, one chunk with the whole text and any split of it among them, give
  the same result.
\<close>

theorem chunk_splitting_invariance:
  assumes "list_all2 (well_formed_chunk loads) lines1 fragments1"
    and "list_all2 (well_formed_chunk loads) lines2 fragments2"
    and "concat fragments1 = concat fragments2"
  shows "full_content (assemble loads lines1) = concat fragments1
       \<and> assemble loads lines1 = assemble loads lines2"
  by (simp add: assemble_well_formed [OF assms(1)] assemble_well_formed [OF assms(2)] assms(3))

section \<open>Properties of the structured result parser\<close>

lemma snd_outer_handler: "snd (outer_handler out e) = Inl e"
  by (simp add: outer_handler_def)

lemma fst_outer_handler: "fst (outer_handler out e) = out @ [PrintLLMError e]"
  by (simp add: outer_handler_def)

lemma getattr_char: "getattr_decode_error msg doc pos (ascii ''char'') = Inl (AttributeError (ascii ''char''))"
  by (simp add: getattr_decode_error_def ascii_def)

lemma decode_error_handler_eq:
  "decode_error_handler out cleaned msg doc pos =
     (out @ [PrintJsonError msg (lineno doc pos) (colno doc pos) pos,
             PrintErrorPosition (lineno doc pos) (colno doc pos),
             PrintLLMError (AttributeError (ascii ''char''))],
      Inl (AttributeError (ascii ''char'')))"
  by (simp add: decode_error_handler_def getattr_char outer_handler_def Let_def)

lemma snd_validate_result: "snd (validate_result out v) = snd (validate_result [] v)"
  by (simp add: validate_result_def Let_def snd_outer_handler split: sum.splits)

lemma snd_parse_result:
  "snd (parse_result loads full) =
     (case loads (clean_payload full) of
        Inl (JSONDecodeError msg doc pos) \<Rightarrow> Inl (AttributeError (ascii ''char''))
      | Inl e \<Rightarrow> Inl e
      | Inr v \<Rightarrow> snd (validate_result [] v))"
  unfolding parse_result_def Let_def
  by (simp add: decode_error_handler_eq snd_outer_handler snd_validate_result [of "_ # _"]
        split: sum.splits exn.splits)

lemma snd_parse_result_cong:
  assumes "clean_payload a = clean_payload b"
  shows "snd (parse_result loads a) = snd (parse_result loads b)"
  by (simp add: snd_parse_result assms)

text \<open>
  Claim C5.  When the cleaned payload decodes to a JSON object without the key
  \<open>sections\<close>, the parser fails with the \<open>ValueError\<close> of line 158, whose message
  names the field \<open>sections\<close>; the failure is not a \<open>JSONDecodeError\<close>, and it is
  the one the handler of line 189 reports.
\<close>

theorem missing_sections_is_schema_violation:
  assumes "loads (clean_payload full) = Inr (JDict kvs)"
    and "map_of kvs (ascii ''sections'') = None"
  shows "snd (parse_result loads full) = Inl (ValueError missing_sections_message)
       \<and> (\<exists>pre post. missing_sections_message = pre @ ascii ''sections'' @ post)
       \<and> (\<forall>msg doc pos. snd (parse_result loads full) \<noteq> Inl (JSONDecodeError msg doc pos))
       \<and> PrintLLMError (ValueError missing_sections_message) \<in> set (fst (parse_result loads full))"
proof -
  have "parse_result loads full =
      outer_handler ([PrintCleaning] @ (if fenced full then [PrintFenceDetected] else [])
                  @ [PrintFinalContent (clean_payload full), PrintTrying] @ [PrintParsed])
        (ValueError missing_sections_message)"
    using assms
    by (simp add: parse_result_def validate_result_def contains_sections_def Let_def)
  moreover have "\<exists>pre post. missing_sections_message = pre @ ascii ''sections'' @ post"
    unfolding missing_sections_message_def by (metis append.assoc)
  ultimately show ?thesis
    by (simp add: outer_handler_def)
qed

text \<open>
  When the decoder rejects the cleaned payload, the handler of line 165 prints the
  message and the position, and then reads the attribute \<open>char\<close>, which a
  \<open>JSONDecodeError\<close> does not have: the \<open>AttributeError\<close> leaves the method and the
  lines that print the offending line of the payload are never reached.
\<close>

lemma decode_error_report:
  assumes "loads (clean_payload full) = Inl (JSONDecodeError msg doc pos)"
  shows "snd (parse_result loads full) = Inl (AttributeError (ascii ''char''))
       \<and> PrintErrorPosition (lineno doc pos) (colno doc pos) \<in> set (fst (parse_result loads full))
       \<and> (\<forall>l. PrintProblemLine l \<notin> set (fst (parse_result loads full)))"
  using assms
  by (simp add: parse_result_def decode_error_handler_eq Let_def)

text \<open>
  Claim C6, on a payload of two lines with a syntax error in the second: the run fails and
  the line and the column are printed, but the content of the offending line is not, and
  the exception that leaves the method is the \<open>AttributeError\<close>.
\<close>

theorem decode_error_report_lacks_source_line:
  \<open>parse_result json_loads (ascii ''{'' @ [10] @ ascii ''"sections": oops}'')
     = ([PrintCleaning,
         PrintFinalContent (ascii ''{'' @ [10] @ ascii ''"sections": oops}''),
         PrintTrying,
         PrintJsonError ExpectingValue 2 13 14,
         PrintErrorPosition 2 13,
         PrintLLMError (AttributeError (ascii ''char''))],
        Inl (AttributeError (ascii ''char'')))\<close>
  by code_simp

end
